theory Spec2Isabelle
  imports Complex_Main "HOL-Library.Sublist" "HOL-Library.Word"
begin

section \<open>NeonVox: a shallow embedding of the TTS broker\<close>

text \<open>
  The development follows \<^verbatim>\<open>backend/main.py\<close> (the HTTP API) and
  \<^verbatim>\<open>scripts/batch_tts_reels.py\<close> (the batch script).  A Python \<^verbatim>\<open>str\<close> is a
  \<^typ>\<open>string\<close>, one \<^typ>\<open>char\<close> per code point (code points below 256), so that
  \<^verbatim>\<open>len\<close> is \<^const>\<open>length\<close>.  Audio data is a list of bytes.  An exception is a value
  of type \<open>exn\<close>, and a function that may raise returns \<open>exn + 'a\<close>.  The third-party
  libraries (gTTS, pyttsx3, pydub) are parameters of the model.
\<close>

subsection \<open>Python string operations\<close>

definition isspace :: "char \<Rightarrow> bool" where
  \<comment> \<open>\<^verbatim>\<open>str.isspace\<close> on the code points below 256\<close>
  "isspace c \<longleftrightarrow> c \<in> set [CHR 0x09, CHR 0x0A, CHR 0x0B, CHR 0x0C, CHR 0x0D,
     CHR 0x1C, CHR 0x1D, CHR 0x1E, CHR 0x1F, CHR 0x20, CHR 0x85, CHR 0xA0]"

definition strip :: "string \<Rightarrow> string" where
  \<comment> \<open>\<^verbatim>\<open>s.strip()\<close>\<close>
  "strip s = rev (dropWhile isspace (rev (dropWhile isspace s)))"

definition lower_char :: "char \<Rightarrow> char" where
  \<comment> \<open>ASCII letters only; the other code points are left as they are\<close>
  "lower_char c =
     (case map_of (zip ''ABCDEFGHIJKLMNOPQRSTUVWXYZ'' ''abcdefghijklmnopqrstuvwxyz'') c of
        None \<Rightarrow> c | Some d \<Rightarrow> d)"

definition lower :: "string \<Rightarrow> string" where
  \<comment> \<open>\<^verbatim>\<open>s.lower()\<close>\<close>
  "lower s = map lower_char s"

fun str_in :: "string \<Rightarrow> string \<Rightarrow> bool" where
  \<comment> \<open>\<^verbatim>\<open>needle in hay\<close>: a scan over the start positions\<close>
  "str_in needle [] = (needle = [])"
| "str_in needle (h # hay) = (prefix needle (h # hay) \<or> str_in needle hay)"

definition endswith :: "string \<Rightarrow> string \<Rightarrow> bool" where
  \<comment> \<open>\<^verbatim>\<open>s.endswith(suf)\<close>\<close>
  "endswith s suf = prefix (rev suf) (rev s)"

definition or_empty :: "string option \<Rightarrow> string" where
  \<comment> \<open>\<^verbatim>\<open>x or ""\<close> for a value that is a string, \<^verbatim>\<open>None\<close> or missing\<close>
  "or_empty x = (case x of None \<Rightarrow> [] | Some s \<Rightarrow> s)"

fun rfind :: "char \<Rightarrow> string \<Rightarrow> int" where
  \<comment> \<open>\<^verbatim>\<open>p.rfind(c)\<close>: the last index of \<open>c\<close>, or \<open>-1\<close>\<close>
  "rfind c [] = - 1"
| "rfind c (x # xs) =
     (let r = rfind c xs in if 0 \<le> r then r + 1 else if x = c then 0 else - 1)"

definition digit_char :: "nat \<Rightarrow> char" where
  "digit_char d = ''0123456789'' ! d"

function str_nat :: "nat \<Rightarrow> string" where
  "str_nat n = (if n < 10 then [digit_char n] else str_nat (n div 10) @ [digit_char (n mod 10)])"
  by pat_completeness auto
termination
  by (relation "measure (\<lambda>n. n)") auto

declare str_nat.simps [simp del]

definition str_int :: "int \<Rightarrow> string" where
  \<comment> \<open>\<^verbatim>\<open>str(i)\<close>, as an f-string renders an \<^verbatim>\<open>int\<close>\<close>
  "str_int i = (if i < 0 then CHR ''-'' # str_nat (nat (- i)) else str_nat (nat i))"

definition splitext :: "string \<Rightarrow> string \<times> string" where
  \<comment> \<open>\<^verbatim>\<open>os.path.splitext\<close> (posixpath): split at the last dot of the last component,
      unless that component has only dots before it\<close>
  "splitext p =
     (let sepIndex = rfind CHR ''/'' p;
          dotIndex = rfind CHR ''.'' p
      in if dotIndex > sepIndex \<and>
            list_ex (\<lambda>c. c \<noteq> CHR ''.'')
              (take (nat (dotIndex - (sepIndex + 1))) (drop (nat (sepIndex + 1)) p))
         then (take (nat dotIndex) p, drop (nat dotIndex) p)
         else (p, []))"

subsection \<open>Data\<close>

type_synonym bytes = "8 word list"

datatype exn =
    HTTPException nat string          \<comment> \<open>status code and detail\<close>
  | RequestValidationError "string list"
      \<comment> \<open>the messages of the \<^verbatim>\<open>ValueError\<close>s raised by the field validators\<close>
  | SystemExit string
  | ImportError string
  | LibraryError string               \<comment> \<open>any exception raised inside a third-party library\<close>

record Voice =
  v_id :: string
  v_name :: "string option"           \<comment> \<open>\<^verbatim>\<open>None\<close>: attribute missing or \<^verbatim>\<open>None\<close>\<close>
  v_gender :: "string option"

text \<open>
  A pyttsx3 engine: its three properties, what \<^verbatim>\<open>getProperty('voices')\<close> yields (it
  raises, or returns \<^verbatim>\<open>None\<close> or a list) and whether \<^verbatim>\<open>setProperty('voice', _)\<close> raises.
\<close>

record Engine =
  eng_rate :: int
  eng_volume :: real
  eng_voice :: string
  eng_voices :: "string + Voice list option"
  eng_setvoice_raises :: "string option"

record pyttsx3_lib =
  init :: Engine
    \<comment> \<open>the engine that \<^verbatim>\<open>pyttsx3.init()\<close> returns, with the defaults of the driver; the
        call is taken to succeed\<close>
  runAndWait :: "Engine \<Rightarrow> string \<Rightarrow> string + bytes"
    \<comment> \<open>\<^verbatim>\<open>save_to_file\<close> then \<^verbatim>\<open>runAndWait\<close>: the WAV written, or the exception\<close>

text \<open>The module globals; \<^verbatim>\<open>None\<close> is a library whose import failed.\<close>

record env =
  MAX_CHARS :: int
  ALLOW_GTTS :: bool
  gTTS :: "(string \<Rightarrow> string \<Rightarrow> string + bytes) option"
    \<comment> \<open>\<^verbatim>\<open>gTTS(text, lang=lang).save(path)\<close>: the MP3 written, or the exception\<close>
  pyttsx3 :: "pyttsx3_lib option"
  AudioSegment :: "(bytes \<Rightarrow> string + bytes) option"
    \<comment> \<open>\<^verbatim>\<open>from_wav\<close> then \<^verbatim>\<open>export(format="mp3")\<close>\<close>

datatype call =
    Call_gtts string string           \<comment> \<open>text, lang\<close>
  | Call_pyttsx3 Engine string        \<comment> \<open>the engine as configured, text\<close>
  | Call_pydub bytes

text \<open>The world outside: the files on disk and the backend calls made so far.\<close>

record world =
  files :: "string \<rightharpoonup> bytes"
  calls :: "call list"

record TTSRequest =
  req_text :: string
  req_engine :: string
  req_lang :: string
  req_voice :: "string option"
  req_rate :: "int option"
  req_volume :: "real option"

record item =
  filename :: string
  script_text :: string

type_synonym row = "string \<rightharpoonup> string"

record 'a response =
  body :: 'a
  media_type :: string
  content_disposition :: string

text \<open>A \<^verbatim>\<open>zipfile.ZipFile\<close> opened for writing: the entries in order, and the name index.\<close>

record ZipFile =
  filelist :: "(string \<times> bytes) list"
  NameToInfo :: "string \<rightharpoonup> bytes"

definition writestr :: "ZipFile \<Rightarrow> string \<Rightarrow> bytes \<Rightarrow> ZipFile" where
  \<comment> \<open>\<^verbatim>\<open>zf.writestr(nm, data)\<close>: the entry is appended, also when the name is there
      already, and the index is set to it (names without NUL, on a POSIX system)\<close>
  "writestr zf nm data =
     \<lparr>filelist = filelist zf @ [(nm, data)], NameToInfo = (NameToInfo zf)(nm \<mapsto> data)\<rparr>"

definition log_call :: "call \<Rightarrow> world \<Rightarrow> world" where
  "log_call c w = w\<lparr>calls := calls w @ [c]\<rparr>"

subsection \<open>backend/main.py\<close>

definition apos :: string where
  \<comment> \<open>the single quote of the messages\<close>
  "apos = [CHR 0x27]"

definition engine_msg :: string where
  "engine_msg = ''engine must be '' @ apos @ ''gtts'' @ apos @ '' or '' @ apos @ ''pyttsx3'' @ apos"

definition validate_engine :: "string \<Rightarrow> string + string" where
  "validate_engine v0 =
     (let v = lower v0
      in if v \<notin> {''gtts'', ''pyttsx3''} then Inl engine_msg else Inr v)"

definition validate_text :: "env \<Rightarrow> string \<Rightarrow> string + string" where
  "validate_text e v0 =
     (let v = strip v0
      in if v = [] then Inl ''text is required''
         else if int (length v) > MAX_CHARS e
         then Inl (''text exceeds limit of '' @ str_int (MAX_CHARS e) @ '' characters'')
         else Inr v)"

definition synthesize_gtts :: "env \<Rightarrow> string \<Rightarrow> string \<Rightarrow> world \<Rightarrow> (exn + bytes) \<times> world" where
  \<comment> \<open>\<^verbatim>\<open>out.mp3\<close> is written into a temporary directory and read back; the directory is
      removed on every exit, so the files of the world are as before\<close>
  "synthesize_gtts e txt lang w =
     (if \<not> ALLOW_GTTS e then (Inl (HTTPException 403 ''gTTS is disabled by server policy''), w)
      else case gTTS e of
        None \<Rightarrow> (Inl (HTTPException 500 ''gTTS not installed. Run: pip install gTTS''), w)
      | Some save \<Rightarrow>
          (case save txt lang of
             Inl err \<Rightarrow> (Inl (LibraryError err), log_call (Call_gtts txt lang) w)
           | Inr mp3 \<Rightarrow> (Inr mp3, log_call (Call_gtts txt lang) w)))"

definition setProperty_voice :: "Engine \<Rightarrow> string \<Rightarrow> string + Engine" where
  \<comment> \<open>\<^verbatim>\<open>engine.setProperty('voice', i)\<close>\<close>
  "setProperty_voice engine i =
     (case eng_setvoice_raises engine of
        Some err \<Rightarrow> Inl err
      | None \<Rightarrow> Inr (engine\<lparr>eng_voice := i\<rparr>))"

definition voice_matches :: "string \<Rightarrow> Voice \<Rightarrow> bool" where
  \<comment> \<open>the test of the loop: \<^verbatim>\<open>pref_low in name or pref_low in gender\<close>\<close>
  "voice_matches pref_low v =
     (let name = lower (or_empty (v_name v));
          gender = lower (or_empty (v_gender v))
      in str_in pref_low name \<or> str_in pref_low gender)"

fun select_voice_loop :: "Engine \<Rightarrow> string \<Rightarrow> Voice list \<Rightarrow> string + Engine" where
  \<comment> \<open>the \<^verbatim>\<open>for v in voices\<close> of \<^verbatim>\<open>_pyttsx3_select_voice\<close>\<close>
  "select_voice_loop engine pref_low [] = Inr engine"
| "select_voice_loop engine pref_low (v # vs) =
     (if voice_matches pref_low v then setProperty_voice engine (v_id v)
      else select_voice_loop engine pref_low vs)"

definition pyttsx3_select_voice :: "Engine \<Rightarrow> string option \<Rightarrow> Engine" where
  \<comment> \<open>\<^verbatim>\<open>_pyttsx3_select_voice\<close>; the \<^verbatim>\<open>try\<close> swallows every exception\<close>
  "pyttsx3_select_voice engine pref =
     (if pref = None \<or> pref = Some [] then engine
      else case (case eng_voices engine of
                   Inl err \<Rightarrow> Inl err
                 | Inr voices \<Rightarrow>
                     select_voice_loop engine (lower (the pref))
                       (case voices of None \<Rightarrow> [] | Some vs \<Rightarrow> vs)) of
             Inl err \<Rightarrow> engine
           | Inr engine' \<Rightarrow> engine')"

definition configure :: "Engine \<Rightarrow> int option \<Rightarrow> real option \<Rightarrow> Engine" where
  \<comment> \<open>\<^verbatim>\<open>if rate: ...\<close> and \<^verbatim>\<open>if volume is not None: ...\<close>\<close>
  "configure engine rate volume =
     (let engine1 = (if rate \<noteq> None \<and> rate \<noteq> Some 0 then engine\<lparr>eng_rate := the rate\<rparr> else engine)
      in if volume \<noteq> None then engine1\<lparr>eng_volume := the volume\<rparr> else engine1)"

definition synthesize_pyttsx3_mp3 ::
  "env \<Rightarrow> string \<Rightarrow> string option \<Rightarrow> int option \<Rightarrow> real option \<Rightarrow> world \<Rightarrow> (exn + bytes) \<times> world" where
  \<comment> \<open>the temporary directory holds \<^verbatim>\<open>out.wav\<close> and \<^verbatim>\<open>out.mp3\<close> and is removed on
      every exit, so the files of the world are as before\<close>
  "synthesize_pyttsx3_mp3 e txt voice rate volume w =
     (case pyttsx3 e of
        None \<Rightarrow> (Inl (HTTPException 500 ''pyttsx3 not installed. Run: pip install pyttsx3''), w)
      | Some lib \<Rightarrow>
     (case AudioSegment e of
        None \<Rightarrow>
          (Inl (HTTPException 500 ''pydub not installed. Run: pip install pydub and install ffmpeg''), w)
      | Some convert \<Rightarrow>
          (let engine = pyttsx3_select_voice (configure (init lib) rate volume) voice;
               w1 = log_call (Call_pyttsx3 engine txt) w
           in case runAndWait lib engine txt of
                Inl err \<Rightarrow> (Inl (LibraryError err), w1)
              | Inr wav \<Rightarrow>
                  (case convert wav of
                     Inl err \<Rightarrow>
                       (Inl (HTTPException 500 (''ffmpeg missing or conversion failed: '' @ err)),
                        log_call (Call_pydub wav) w1)
                   | Inr mp3 \<Rightarrow> (Inr mp3, log_call (Call_pydub wav) w1)))))"

definition TTSRequest_validate :: "env \<Rightarrow> TTSRequest \<Rightarrow> exn + TTSRequest" where
  \<comment> \<open>the construction of a \<^verbatim>\<open>TTSRequest\<close>: pydantic runs \<^verbatim>\<open>validate_text\<close> and
      \<^verbatim>\<open>validate_engine\<close> on the fields that the body gives, collects the errors and
      builds the model from the validated values\<close>
  "TTSRequest_validate e raw =
     (case (validate_text e (req_text raw), validate_engine (req_engine raw)) of
        (Inr t, Inr g) \<Rightarrow> Inr (raw\<lparr>req_text := t, req_engine := g\<rparr>)
      | (Inl m1, Inr g) \<Rightarrow> Inl (RequestValidationError [m1])
      | (Inr t, Inl m2) \<Rightarrow> Inl (RequestValidationError [m2])
      | (Inl m1, Inl m2) \<Rightarrow> Inl (RequestValidationError [m1, m2]))"

definition tts :: "env \<Rightarrow> TTSRequest \<Rightarrow> world \<Rightarrow> (exn + bytes response) \<times> world" where
  "tts e req w =
     (case (if req_engine req = ''gtts''
            then synthesize_gtts e (req_text req) (req_lang req) w
            else synthesize_pyttsx3_mp3 e (req_text req) (req_voice req) (req_rate req)
                   (req_volume req) w) of
        (Inl err, w') \<Rightarrow> (Inl err, w')
      | (Inr data, w') \<Rightarrow>
          (Inr \<lparr>body = data, media_type = ''audio/mpeg'',
                content_disposition = ''attachment; filename=neonvox.mp3''\<rparr>, w'))"

definition api_tts :: "env \<Rightarrow> TTSRequest \<Rightarrow> world \<Rightarrow> (exn + bytes response) \<times> world" where
  \<comment> \<open>\<^verbatim>\<open>POST /api/tts\<close>: the body is validated into a \<^verbatim>\<open>TTSRequest\<close>, then \<^verbatim>\<open>tts\<close> runs\<close>
  "api_tts e raw w =
     (case TTSRequest_validate e raw of
        Inl err \<Rightarrow> (Inl err, w)
      | Inr req \<Rightarrow> tts e req w)"

fun collect_rows :: "env \<Rightarrow> row list \<Rightarrow> item list \<Rightarrow> exn + item list" where
  \<comment> \<open>the \<^verbatim>\<open>for r in reader\<close> of \<^verbatim>\<open>tts_csv\<close>; the third argument is \<^verbatim>\<open>rows\<close>\<close>
  "collect_rows e [] rows = Inr rows"
| "collect_rows e (r # rs) rows =
     (let fn = strip (or_empty (r ''filename''));
          txt = strip (or_empty (r ''script_text''))
      in if fn = [] \<or> txt = [] then collect_rows e rs rows
         else if int (length txt) > MAX_CHARS e
         then Inl (HTTPException 400
                (''Row '' @ apos @ fn @ apos @ '': text exceeds '' @ str_int (MAX_CHARS e) @ '' chars''))
         else collect_rows e rs (rows @ [\<lparr>filename = fn, script_text = txt\<rparr>]))"

definition synthesize_item ::
  "env \<Rightarrow> string \<Rightarrow> string \<Rightarrow> string option \<Rightarrow> int option \<Rightarrow> real option \<Rightarrow> item \<Rightarrow> world
     \<Rightarrow> (exn + bytes) \<times> world" where
  \<comment> \<open>the \<^verbatim>\<open>if engine == "gtts"\<close> inside the loop of \<^verbatim>\<open>tts_csv\<close>\<close>
  "synthesize_item e engine lang voice rate volume it w =
     (if engine = ''gtts'' then synthesize_gtts e (script_text it) lang w
      else synthesize_pyttsx3_mp3 e (script_text it) voice rate volume w)"

fun zip_rows ::
  "env \<Rightarrow> string \<Rightarrow> string \<Rightarrow> string option \<Rightarrow> int option \<Rightarrow> real option \<Rightarrow> item list
     \<Rightarrow> ZipFile \<Rightarrow> world \<Rightarrow> (exn + ZipFile) \<times> world" where
  \<comment> \<open>the \<^verbatim>\<open>for i, item in enumerate(rows, 1)\<close> of \<^verbatim>\<open>tts_csv\<close>\<close>
  "zip_rows e engine lang voice rate volume [] zf w = (Inr zf, w)"
| "zip_rows e engine lang voice rate volume (it # its) zf w =
     (let base = fst (splitext (filename it))
      in case synthesize_item e engine lang voice rate volume it w of
           (Inl err, w') \<Rightarrow> (Inl err, w')
         | (Inr data, w') \<Rightarrow>
             zip_rows e engine lang voice rate volume its (writestr zf (base @ ''.mp3'') data) w')"

definition empty_csv_msg :: string where
  "empty_csv_msg = ''CSV appears empty or missing required columns: filename, script_text''"

definition tts_csv ::
  "env \<Rightarrow> row list option \<Rightarrow> string \<Rightarrow> string \<Rightarrow> string option \<Rightarrow> int option \<Rightarrow> real option
     \<Rightarrow> world \<Rightarrow> (exn + ZipFile response) \<times> world" where
  \<comment> \<open>the upload is \<^verbatim>\<open>None\<close> when its bytes are not UTF-8, and otherwise the rows that
      \<^verbatim>\<open>csv.DictReader\<close> yields\<close>
  "tts_csv e file engine0 lang voice rate volume w =
     (let engine = lower engine0
      in if engine \<notin> {''gtts'', ''pyttsx3''} then (Inl (HTTPException 400 engine_msg), w)
         else case file of
           None \<Rightarrow> (Inl (HTTPException 400 ''CSV must be UTF-8 encoded''), w)
         | Some reader \<Rightarrow>
        (case collect_rows e reader [] of
           Inl err \<Rightarrow> (Inl err, w)
         | Inr rows \<Rightarrow>
             if rows = [] then (Inl (HTTPException 400 empty_csv_msg), w)
             else case zip_rows e engine lang voice rate volume rows
                         \<lparr>filelist = [], NameToInfo = Map.empty\<rparr> w of
                    (Inl err, w') \<Rightarrow> (Inl err, w')
                  | (Inr zf, w') \<Rightarrow>
                      (Inr \<lparr>body = zf, media_type = ''application/zip'',
                            content_disposition = ''attachment; filename=neonvox_batch.zip''\<rparr>, w')))"

subsection \<open>scripts/batch\_tts\_reels.py\<close>

fun load_rows :: "row list \<Rightarrow> item list \<Rightarrow> item list" where
  \<comment> \<open>the \<^verbatim>\<open>for r in reader\<close> of \<^verbatim>\<open>load_from_csv\<close>\<close>
  "load_rows [] rows = rows"
| "load_rows (r # rs) rows =
     (let fn = strip (or_empty (r ''filename''));
          txt = strip (or_empty (r ''script_text''))
      in if fn \<noteq> [] \<and> txt \<noteq> [] then load_rows rs (rows @ [\<lparr>filename = fn, script_text = txt\<rparr>])
         else load_rows rs rows)"

definition load_from_csv :: "row list \<Rightarrow> exn + item list" where
  "load_from_csv reader =
     (let rows = load_rows reader []
      in if rows = [] then Inl (SystemExit empty_csv_msg) else Inr rows)"

definition no_module :: "string \<Rightarrow> string" where
  \<comment> \<open>the message of the \<^verbatim>\<open>ImportError\<close> that a failed import raises\<close>
  "no_module m = ''No module named '' @ apos @ m @ apos"

definition path_join :: "string \<Rightarrow> string \<Rightarrow> string" where
  \<comment> \<open>\<^verbatim>\<open>outdir / name\<close> of pathlib, for a name without \<^verbatim>\<open>.\<close> or empty components\<close>
  "path_join outdir nm = (if prefix ''/'' nm then nm else outdir @ ''/'' @ nm)"

fun split_sep :: "string \<Rightarrow> string \<Rightarrow> string list" where
  \<comment> \<open>\<^verbatim>\<open>p.split("/")\<close>; the first argument is the component read so far\<close>
  "split_sep cur [] = [cur]"
| "split_sep cur (c # cs) =
     (if c = CHR ''/'' then cur # split_sep [] cs else split_sep (cur @ [c]) cs)"

definition path_stem :: "string \<Rightarrow> string" where
  \<comment> \<open>\<^verbatim>\<open>Path(p).stem\<close>: the last component that is neither empty nor \<^verbatim>\<open>.\<close>, without its
      last suffix\<close>
  "path_stem p =
     (let parts = filter (\<lambda>c. c \<noteq> [] \<and> c \<noteq> ''.'') (split_sep [] p);
          nm = (if parts = [] then [] else last parts);
          i = rfind CHR ''.'' nm
      in if 0 < i \<and> i < int (length nm) - 1 then take (nat i) nm else nm)"

fun save_gtts_loop ::
  "(string \<Rightarrow> string \<Rightarrow> string + bytes) \<Rightarrow> item list \<Rightarrow> string \<Rightarrow> string \<Rightarrow> world
     \<Rightarrow> (exn + unit) \<times> world" where
  \<comment> \<open>the \<^verbatim>\<open>for i, item in enumerate(items, 1)\<close> of \<^verbatim>\<open>save_with_gtts\<close>\<close>
  "save_gtts_loop save [] outdir lang w = (Inr (), w)"
| "save_gtts_loop save (it # its) outdir lang w =
     (let fn = (if \<not> endswith (lower (filename it)) ''.mp3'' then filename it @ ''.mp3''
                else filename it);
          outpath = path_join outdir fn;
          w1 = log_call (Call_gtts (script_text it) lang) w
      in case save (script_text it) lang of
           Inl err \<Rightarrow> (Inl (LibraryError err), w1)
         | Inr mp3 \<Rightarrow> save_gtts_loop save its outdir lang (w1\<lparr>files := (files w1)(outpath \<mapsto> mp3)\<rparr>))"

definition save_with_gtts :: "env \<Rightarrow> item list \<Rightarrow> string \<Rightarrow> string \<Rightarrow> world \<Rightarrow> (exn + unit) \<times> world" where
  "save_with_gtts e items outdir lang w =
     (case gTTS e of
        None \<Rightarrow> (Inl (ImportError (no_module ''gtts'')), w)
      | Some save \<Rightarrow> save_gtts_loop save items outdir lang w)"

definition wav_to_mp3_if_possible :: "env \<Rightarrow> string \<Rightarrow> string \<Rightarrow> world \<Rightarrow> (exn + unit) \<times> world" where
  \<comment> \<open>without pydub the function prints that it keeps the WAV, and returns\<close>
  "wav_to_mp3_if_possible e wav_path mp3_path w =
     (case AudioSegment e of
        None \<Rightarrow> (Inr (), w)
      | Some convert \<Rightarrow>
          (case files w wav_path of
             None \<Rightarrow> (Inl (LibraryError ''FileNotFoundError''), w)
           | Some wav \<Rightarrow>
               (case convert wav of
                  Inl err \<Rightarrow> (Inl (LibraryError err), log_call (Call_pydub wav) w)
                | Inr mp3 \<Rightarrow>
                    (Inr (), (log_call (Call_pydub wav) w)
                       \<lparr>files := (files w)(mp3_path \<mapsto> mp3)\<rparr>))))"

fun save_pyttsx3_loop ::
  "env \<Rightarrow> pyttsx3_lib \<Rightarrow> Engine \<Rightarrow> item list \<Rightarrow> string \<Rightarrow> bool \<Rightarrow> world \<Rightarrow> (exn + unit) \<times> world" where
  \<comment> \<open>the \<^verbatim>\<open>for i, item in enumerate(items, 1)\<close> of \<^verbatim>\<open>save_with_pyttsx3\<close>\<close>
  "save_pyttsx3_loop e lib engine [] outdir mp3_convert w = (Inr (), w)"
| "save_pyttsx3_loop e lib engine (it # its) outdir mp3_convert w =
     (let base = path_stem (filename it);
          wav_path = path_join outdir (base @ ''.wav'');
          mp3_path = path_join outdir (base @ ''.mp3'');
          w1 = log_call (Call_pyttsx3 engine (script_text it)) w
      in case runAndWait lib engine (script_text it) of
           Inl err \<Rightarrow> (Inl (LibraryError err), w1)
         | Inr wav \<Rightarrow>
             (let w2 = w1\<lparr>files := (files w1)(wav_path \<mapsto> wav)\<rparr>
              in if mp3_convert
                 then (case wav_to_mp3_if_possible e wav_path mp3_path w2 of
                         (Inl err, w3) \<Rightarrow> (Inl err, w3)
                       | (Inr u, w3) \<Rightarrow> save_pyttsx3_loop e lib engine its outdir mp3_convert w3)
                 else save_pyttsx3_loop e lib engine its outdir mp3_convert w2))"

fun find_voice :: "string \<Rightarrow> Voice list \<Rightarrow> string option" where
  \<comment> \<open>the \<^verbatim>\<open>for v in voices\<close> of \<^verbatim>\<open>save_with_pyttsx3\<close>: \<^verbatim>\<open>selected_id\<close>\<close>
  "find_voice pref [] = None"
| "find_voice pref (v # vs) = (if voice_matches pref v then Some (v_id v) else find_voice pref vs)"

definition cli_select_voice :: "Engine \<Rightarrow> string option \<Rightarrow> string + Engine" where
  \<comment> \<open>the \<^verbatim>\<open>if voice_pref:\<close> block of \<^verbatim>\<open>save_with_pyttsx3\<close>; no exception is caught\<close>
  "cli_select_voice engine voice_pref =
     (if voice_pref = None \<or> voice_pref = Some [] then Inr engine
      else case eng_voices engine of
        Inl err \<Rightarrow> Inl err
      | Inr voices \<Rightarrow>
          (case find_voice (lower (the voice_pref)) (case voices of None \<Rightarrow> [] | Some vs \<Rightarrow> vs) of
             None \<Rightarrow> Inr engine
           | Some selected_id \<Rightarrow>
               if selected_id \<noteq> [] then setProperty_voice engine selected_id else Inr engine))"

definition save_with_pyttsx3 ::
  "env \<Rightarrow> item list \<Rightarrow> string \<Rightarrow> string option \<Rightarrow> int option \<Rightarrow> real option \<Rightarrow> bool \<Rightarrow> world
     \<Rightarrow> (exn + unit) \<times> world" where
  "save_with_pyttsx3 e items outdir voice_pref rate volume mp3_convert w =
     (case pyttsx3 e of
        None \<Rightarrow> (Inl (ImportError (no_module ''pyttsx3'')), w)
      | Some lib \<Rightarrow>
          (case cli_select_voice (configure (init lib) rate volume) voice_pref of
             Inl err \<Rightarrow> (Inl (LibraryError err), w)
           | Inr engine \<Rightarrow> save_pyttsx3_loop e lib engine items outdir mp3_convert w))"

subsection \<open>Notions used by the properties\<close>

definition row_filename :: "row \<Rightarrow> string" where
  "row_filename r = strip (or_empty (r ''filename''))"

definition row_text :: "row \<Rightarrow> string" where
  "row_text r = strip (or_empty (r ''script_text''))"

definition valid_row :: "row \<Rightarrow> bool" where
  \<comment> \<open>a row that has both columns, once trimmed\<close>
  "valid_row r \<longleftrightarrow> row_filename r \<noteq> [] \<and> row_text r \<noteq> []"

definition oversized :: "env \<Rightarrow> row \<Rightarrow> bool" where
  \<comment> \<open>a row that has both columns and whose trimmed text is longer than the limit\<close>
  "oversized e r \<longleftrightarrow> valid_row r \<and> int (length (row_text r)) > MAX_CHARS e"

definition row_item :: "row \<Rightarrow> item" where
  "row_item r = \<lparr>filename = row_filename r, script_text = row_text r\<rparr>"

definition too_long_error :: "env \<Rightarrow> string \<Rightarrow> exn" where
  "too_long_error e fn =
     HTTPException 400
       (''Row '' @ apos @ fn @ apos @ '': text exceeds '' @ str_int (MAX_CHARS e) @ '' chars'')"

subsection \<open>Concrete inputs\<close>

definition voice_a :: Voice where
  "voice_a = \<lparr>v_id = ''id-alex'', v_name = Some ''Alex'', v_gender = Some ''Male''\<rparr>"

definition voice_b :: Voice where
  "voice_b = \<lparr>v_id = ''id-zira'', v_name = Some ''Zira'', v_gender = Some ''Female''\<rparr>"

definition eng0 :: Engine where
  "eng0 = \<lparr>eng_rate = 200, eng_volume = 1, eng_voice = ''default'',
     eng_voices = Inr (Some [voice_a, voice_b]), eng_setvoice_raises = None\<rparr>"

definition speak0 :: "Engine \<Rightarrow> string \<Rightarrow> string + bytes" where
  "speak0 g t = Inr [1]"

definition lib0 :: pyttsx3_lib where
  "lib0 = \<lparr>init = eng0, runAndWait = speak0\<rparr>"

definition gtts0 :: "string \<Rightarrow> string \<Rightarrow> string + bytes" where
  \<comment> \<open>a gTTS that fails on the text \<^verbatim>\<open>bad\<close>\<close>
  "gtts0 t l = (if t = ''bad'' then Inl ''boom'' else if t = ''again'' then Inr [7] else Inr [2])"

definition convert0 :: "bytes \<Rightarrow> string + bytes" where
  "convert0 wav = Inr (3 # wav)"

definition env0 :: env where
  \<comment> \<open>\<^verbatim>\<open>NEONVOX_MAX_CHARS=5\<close>, every library installed\<close>
  "env0 = \<lparr>MAX_CHARS = 5, ALLOW_GTTS = True, gTTS = Some gtts0,
     pyttsx3 = Some lib0, AudioSegment = Some convert0\<rparr>"

definition world0 :: world where
  "world0 = \<lparr>files = Map.empty, calls = []\<rparr>"

definition mk_row :: "string \<Rightarrow> string \<Rightarrow> row" where
  "mk_row fn txt = [''filename'' \<mapsto> fn, ''script_text'' \<mapsto> txt]"

definition rows_long :: "row list" where
  \<comment> \<open>a row without filename, a good row, and two rows whose text is too long\<close>
  "rows_long = [mk_row [] ''no filename, and long'', mk_row ''a.mp3'' ''hello'',
     mk_row ''b.mp3'' ''  toolong '', mk_row ''c.mp3'' ''too long as well'']"

definition exn_text :: "exn \<Rightarrow> string" where
  \<comment> \<open>the text that an exception carries\<close>
  "exn_text x = (case x of HTTPException c d \<Rightarrow> d | RequestValidationError ms \<Rightarrow> concat ms
     | SystemExit m \<Rightarrow> m | ImportError m \<Rightarrow> m | LibraryError m \<Rightarrow> m)"

definition rows3 :: "row list" where
  \<comment> \<open>three good rows; gTTS of \<open>env0\<close> fails on the second\<close>
  "rows3 = [mk_row ''first.mp3'' ''one'', mk_row ''second.mp3'' ''bad'', mk_row ''third.mp3'' ''tri'']"

definition req_padded :: TTSRequest where
  "req_padded = \<lparr>req_text = ''hi       '', req_engine = ''gtts'', req_lang = ''en'',
     req_voice = None, req_rate = None, req_volume = None\<rparr>"

definition req_long :: TTSRequest where
  "req_long = \<lparr>req_text = '' toolong '', req_engine = ''gtts'', req_lang = ''en'',
     req_voice = None, req_rate = None, req_volume = None\<rparr>"

definition env_nopydub :: env where
  \<comment> \<open>pyttsx3 is installed, pydub is not\<close>
  "env_nopydub = env0\<lparr>AudioSegment := None\<rparr>"





definition lib_novoices :: pyttsx3_lib where
  \<comment> \<open>a pyttsx3 whose engine raises when asked for its voices\<close>
  "lib_novoices = \<lparr>init = eng0\<lparr>eng_voices := Inl ''driver error''\<rparr>, runAndWait = speak0\<rparr>"

definition env_novoices :: env where
  "env_novoices = env0\<lparr>pyttsx3 := Some lib_novoices\<rparr>"

section \<open>Properties\<close>

subsection \<open>Reading the rows\<close>

lemma collect_rows_filter:
  "collect_rows e rs acc =
     (case find (oversized e) rs of
        Some r \<Rightarrow> Inl (too_long_error e (row_filename r))
      | None \<Rightarrow> Inr (acc @ map row_item (filter valid_row rs)))"
proof (induction rs arbitrary: acc)
  case Nil
  show ?case by simp
next
  case (Cons r rs)
  show ?case
  proof (cases "valid_row r")
    case False
    then have "\<not> oversized e r" by (simp add: oversized_def)
    with False show ?thesis
      using Cons.IH [of acc]
      by (auto simp: valid_row_def row_filename_def row_text_def Let_def
          cong: option.case_cong)
  next
    case True
    show ?thesis
    proof (cases "oversized e r")
      case True
      then show ?thesis
        by (simp add: oversized_def valid_row_def row_filename_def row_text_def
            too_long_error_def Let_def)
    next
      case False
      with \<open>valid_row r\<close> show ?thesis
        using Cons.IH [of "acc @ [row_item r]"]
        by (simp add: oversized_def valid_row_def row_filename_def row_text_def
            row_item_def Let_def cong: option.case_cong)
    qed
  qed
qed

lemma find_filter_oversized:
  "find (oversized e) (filter valid_row rs) = find (oversized e) rs"
  by (induction rs) (auto simp: oversized_def)

lemma collect_rows_skips:
  "collect_rows e (filter valid_row rs) acc = collect_rows e rs acc"
  by (simp add: collect_rows_filter find_filter_oversized cong: option.case_cong)

lemma load_rows_filter: "load_rows rs acc = acc @ map row_item (filter valid_row rs)"
  by (induction rs arbitrary: acc)
     (auto simp: valid_row_def row_filename_def row_text_def row_item_def Let_def)

lemmas eval_strings =
  strip_def isspace_def or_empty_def lower_def lower_char_def mk_row_def
  row_filename_def row_text_def valid_row_def oversized_def

text \<open>
  C1 (as amended).  In \<^verbatim>\<open>tts_csv\<close>, with a valid engine and a decodable upload, every row
  is read, and its trimmed text checked against \<^verbatim>\<open>MAX_CHARS\<close>, before any synthesis:
  when some row that has both columns is too long, the request fails with status 400,
  the detail names the first such row and the limit, and the world is as before, so
  that no backend was called.
\<close>

theorem tts_csv_oversized:
  assumes "lower engine0 \<in> {''gtts'', ''pyttsx3''}"
      and "find (oversized e) reader = Some r"
  shows "tts_csv e (Some reader) engine0 lang voice rate volume w =
           (Inl (HTTPException 400
              (''Row '' @ apos @ row_filename r @ apos @ '': text exceeds '' @
               str_int (MAX_CHARS e) @ '' chars'')), w)"
  using assms by (auto simp: tts_csv_def collect_rows_filter too_long_error_def Let_def)

theorem tts_csv_oversized_witness:
  "lower ''GTTS'' \<in> {''gtts'', ''pyttsx3''}
   \<and> find (oversized env0) rows_long = Some (mk_row ''b.mp3'' ''  toolong '')
   \<and> tts_csv env0 (Some rows_long) ''GTTS'' ''en'' None None None world0 =
       (Inl (HTTPException 400 (''Row '' @ apos @ ''b.mp3'' @ apos @ '': text exceeds 5 chars'')),
        world0)"
proof -
  have h1: "lower ''GTTS'' \<in> {''gtts'', ''pyttsx3''}"
    by (simp add: lower_def lower_char_def)
  have h2: "find (oversized env0) rows_long = Some (mk_row ''b.mp3'' ''  toolong '')"
    by (simp add: rows_long_def eval_strings env0_def gtts0_def convert0_def)
  have h3: "row_filename (mk_row ''b.mp3'' ''  toolong '') = ''b.mp3''"
    by (simp add: eval_strings)
  have h4: "str_int (MAX_CHARS env0) = ''5''"
    by (simp add: env0_def gtts0_def convert0_def str_int_def str_nat.simps digit_char_def)
  show ?thesis
    using h1 h2 tts_csv_oversized [OF h1 h2, of "''en''" None None None world0]
    unfolding h3 h4 by simp
qed

text \<open>
  The batch script has no such check: \<^verbatim>\<open>load_from_csv\<close> keeps an item whose text is
  longer than the limit, and \<^verbatim>\<open>save_with_gtts\<close> synthesises it.
\<close>

theorem cli_no_length_check_counterexample:
  "int (length ''toolong'') > MAX_CHARS env0
   \<and> load_from_csv [mk_row ''a.mp3'' ''toolong''] =
       Inr [\<lparr>filename = ''a.mp3'', script_text = ''toolong''\<rparr>]
   \<and> fst (save_with_gtts env0 [\<lparr>filename = ''a.mp3'', script_text = ''toolong''\<rparr>]
            ''out'' ''en'' world0) = Inr ()
   \<and> calls (snd (save_with_gtts env0 [\<lparr>filename = ''a.mp3'', script_text = ''toolong''\<rparr>]
            ''out'' ''en'' world0)) = [Call_gtts ''toolong'' ''en'']"
  by (simp add: env0_def gtts0_def convert0_def load_from_csv_def eval_strings save_with_gtts_def endswith_def
      path_join_def log_call_def world0_def Let_def)

text \<open>
  C6.  Rows without a filename or without a text (empty once trimmed) have no effect on
  the outcome of a batch: the request is handled as if they were not in the file, also
  when their text is longer than the limit, since they are dropped before the length is
  looked at.  When no row is left, the request fails with the empty-batch error (status
  400 in \<^verbatim>\<open>tts_csv\<close>, once the engine name is accepted; \<^verbatim>\<open>SystemExit\<close> in the script).
\<close>

theorem csv_filtering:
  "tts_csv e (Some reader) engine0 lang voice rate volume w =
     tts_csv e (Some (filter valid_row reader)) engine0 lang voice rate volume w
   \<and> load_from_csv reader = load_from_csv (filter valid_row reader)
   \<and> (filter valid_row reader = [] \<longrightarrow>
        load_from_csv reader = Inl (SystemExit empty_csv_msg)
        \<and> (lower engine0 \<in> {''gtts'', ''pyttsx3''} \<longrightarrow>
             tts_csv e (Some reader) engine0 lang voice rate volume w =
               (Inl (HTTPException 400 empty_csv_msg), w)))"
proof -
  have a: "tts_csv e (Some reader) engine0 lang voice rate volume w =
     tts_csv e (Some (filter valid_row reader)) engine0 lang voice rate volume w"
    using collect_rows_skips [of e reader "[]"] by (simp add: tts_csv_def Let_def)
  have b: "load_from_csv reader = load_from_csv (filter valid_row reader)"
    by (simp add: load_from_csv_def load_rows_filter)
  have c: "find (oversized e) reader = None" if "filter valid_row reader = []"
    using that by (induction reader) (auto simp: oversized_def split: if_splits)
  have d: "load_from_csv reader = Inl (SystemExit empty_csv_msg)"
    if "filter valid_row reader = []"
    using that by (simp add: load_from_csv_def load_rows_filter)
  have f: "tts_csv e (Some reader) engine0 lang voice rate volume w =
               (Inl (HTTPException 400 empty_csv_msg), w)"
    if "filter valid_row reader = []" "lower engine0 \<in> {''gtts'', ''pyttsx3''}"
    using that c by (auto simp: tts_csv_def collect_rows_filter Let_def)
  from a b d f show ?thesis by blast
qed

theorem csv_filtering_witness:
  "filter valid_row [mk_row ''a.mp3'' ''   '', mk_row [] ''far too long''] = []
   \<and> lower ''gtts'' \<in> {''gtts'', ''pyttsx3''}
   \<and> load_from_csv [mk_row ''a.mp3'' ''   '', mk_row [] ''far too long''] =
       Inl (SystemExit empty_csv_msg)
   \<and> tts_csv env0 (Some [mk_row ''a.mp3'' ''   '', mk_row [] ''far too long''])
         ''gtts'' ''en'' None None None world0 =
       (Inl (HTTPException 400 empty_csv_msg), world0)"
proof -
  have h1: "filter valid_row [mk_row ''a.mp3'' ''   '', mk_row [] ''far too long''] = []"
    by (simp add: eval_strings)
  have h2: "lower ''gtts'' \<in> {''gtts'', ''pyttsx3''}"
    by (simp add: lower_def lower_char_def)
  show ?thesis
    using h1 h2
      csv_filtering [of env0 "[mk_row ''a.mp3'' ''   '', mk_row [] ''far too long'']"
        "''gtts''" "''en''" None None None world0]
    by blast
qed

subsection \<open>The synthesis loop of the batch endpoint\<close>

lemma zip_rows_append_fail:
  assumes "zip_rows e engine lang voice rate volume pre zf w = (Inr zf1, w1)"
      and "synthesize_item e engine lang voice rate volume it w1 = (Inl err, w2)"
  shows "zip_rows e engine lang voice rate volume (pre @ it # post) zf w = (Inl err, w2)"
  using assms
proof (induction pre arbitrary: zf w)
  case Nil
  then show ?case by simp
next
  case (Cons a pre)
  then show ?case
    by (auto simp: Let_def split: prod.splits sum.splits)
qed

lemma rows3_items: "collect_rows env0 rows3 [] =
   Inr ([\<lparr>filename = ''first.mp3'', script_text = ''one''\<rparr>] @
        \<lparr>filename = ''second.mp3'', script_text = ''bad''\<rparr> #
        [\<lparr>filename = ''third.mp3'', script_text = ''tri''\<rparr>])"
  by (simp add: rows3_def env0_def gtts0_def convert0_def strip_def isspace_def or_empty_def mk_row_def)

text \<open>
  C2 (as amended).  \<^verbatim>\<open>tts_csv\<close> synthesises the items in the order of the file.  When
  the items before item \<open>k\<close> succeed and the synthesis of item \<open>k\<close> fails, the request
  fails with that error as it was raised: there is no archive in the result, and the world
  is the one that the failed attempt left, so that no later item was attempted.
\<close>

theorem tts_csv_fail_fast:
  assumes "lower engine0 \<in> {''gtts'', ''pyttsx3''}"
      and "collect_rows e reader [] = Inr (pre @ it # post)"
      and "zip_rows e (lower engine0) lang voice rate volume pre
             \<lparr>filelist = [], NameToInfo = Map.empty\<rparr> w = (Inr zf1, w1)"
      and "synthesize_item e (lower engine0) lang voice rate volume it w1 = (Inl err, w2)"
  shows "tts_csv e (Some reader) engine0 lang voice rate volume w = (Inl err, w2)"
  using assms(1,2) zip_rows_append_fail [OF assms(3,4), of post]
  by (auto simp: tts_csv_def Let_def)

theorem tts_csv_fail_fast_witness:
  "lower ''gtts'' \<in> {''gtts'', ''pyttsx3''}
   \<and> tts_csv env0 (Some rows3) ''gtts'' ''en'' None None None world0 =
       (Inl (LibraryError ''boom''),
        \<lparr>files = Map.empty, calls = [Call_gtts ''one'' ''en'', Call_gtts ''bad'' ''en'']\<rparr>)"
proof -
  have h1: "lower ''gtts'' \<in> {''gtts'', ''pyttsx3''}"
    by (simp add: lower_def lower_char_def)
  have l: "lower ''gtts'' = ''gtts''"
    by (simp add: lower_def lower_char_def)
  have h3: "zip_rows env0 (lower ''gtts'') ''en'' None None None
              [\<lparr>filename = ''first.mp3'', script_text = ''one''\<rparr>]
              \<lparr>filelist = [], NameToInfo = Map.empty\<rparr> world0 =
            (Inr \<lparr>filelist = [(''first.mp3'', [2])], NameToInfo = [''first.mp3'' \<mapsto> [2]]\<rparr>,
             \<lparr>files = Map.empty, calls = [Call_gtts ''one'' ''en'']\<rparr>)"
    by (simp add: l synthesize_item_def synthesize_gtts_def env0_def gtts0_def convert0_def world0_def log_call_def
        writestr_def splitext_def Let_def)
  have h4: "synthesize_item env0 (lower ''gtts'') ''en'' None None None
              \<lparr>filename = ''second.mp3'', script_text = ''bad''\<rparr>
              \<lparr>files = Map.empty, calls = [Call_gtts ''one'' ''en'']\<rparr> =
            (Inl (LibraryError ''boom''),
             \<lparr>files = Map.empty, calls = [Call_gtts ''one'' ''en'', Call_gtts ''bad'' ''en'']\<rparr>)"
    by (simp add: l synthesize_item_def synthesize_gtts_def env0_def gtts0_def convert0_def log_call_def)
  show ?thesis
    using h1 tts_csv_fail_fast [OF h1 rows3_items h3 h4] by simp
qed

text \<open>
  The error is the one of the backend or of \<^verbatim>\<open>synthesize_gtts\<close>, and nothing is added to
  it: when the second of three items fails, the text of the error mentions neither the
  filename of that item, nor its position, nor its text.
\<close>

theorem error_without_item_counterexample:
  "tts_csv env0 (Some rows3) ''gtts'' ''en'' None None None world0 =
     (Inl (LibraryError ''boom''),
      \<lparr>files = Map.empty, calls = [Call_gtts ''one'' ''en'', Call_gtts ''bad'' ''en'']\<rparr>)
   \<and> \<not> str_in ''second.mp3'' (exn_text (LibraryError ''boom''))
   \<and> \<not> str_in ''second'' (exn_text (LibraryError ''boom''))
   \<and> \<not> str_in ''2'' (exn_text (LibraryError ''boom''))
   \<and> \<not> str_in ''bad'' (exn_text (LibraryError ''boom''))"
  by (simp add: tts_csv_def rows3_def eval_strings synthesize_item_def
     synthesize_gtts_def env0_def gtts0_def convert0_def world0_def log_call_def writestr_def splitext_def Let_def exn_text_def)

subsection \<open>The single request\<close>

text \<open>
  C3 (as amended).  A request whose text, once trimmed, is longer than \<^verbatim>\<open>MAX_CHARS\<close>
  is refused by the validation of the text, and the world is as before: no backend was
  called.
\<close>

theorem api_tts_too_long:
  assumes "int (length (strip (req_text raw))) > MAX_CHARS e"
  shows "\<exists>m ms. validate_text e (req_text raw) = Inl m
           \<and> api_tts e raw w = (Inl (RequestValidationError (m # ms)), w)"
  using assms
  by (auto simp: api_tts_def TTSRequest_validate_def validate_text_def Let_def split: sum.splits)

theorem api_tts_too_long_witness:
  "int (length (strip (req_text req_long))) > MAX_CHARS env0
   \<and> (\<exists>m ms. validate_text env0 (req_text req_long) = Inl m
           \<and> api_tts env0 req_long world0 = (Inl (RequestValidationError (m # ms)), world0))"
proof -
  have h: "int (length (strip (req_text req_long))) > MAX_CHARS env0"
    by (simp add: req_long_def env0_def gtts0_def convert0_def strip_def isspace_def)
  show ?thesis using h api_tts_too_long [OF h, of world0] by simp
qed

text \<open>
  The length is taken after \<^verbatim>\<open>strip()\<close>: a text of nine characters, seven of them
  trailing spaces, passes a limit of five and is synthesised.
\<close>

theorem padded_text_counterexample:
  "int (length (req_text req_padded)) > MAX_CHARS env0
   \<and> api_tts env0 req_padded world0 =
       (Inr \<lparr>body = [2], media_type = ''audio/mpeg'',
             content_disposition = ''attachment; filename=neonvox.mp3''\<rparr>,
        \<lparr>files = Map.empty, calls = [Call_gtts ''hi'' ''en'']\<rparr>)"
  by (simp add: req_padded_def env0_def gtts0_def convert0_def world0_def api_tts_def TTSRequest_validate_def
      validate_text_def validate_engine_def tts_def synthesize_gtts_def log_call_def
      strip_def isspace_def lower_def lower_char_def Let_def)

subsection \<open>The choice of the voice\<close>


lemma select_voice_loop_find:
  "select_voice_loop engine p vs =
     (case find (voice_matches p) vs of
        None \<Rightarrow> Inr engine
      | Some v \<Rightarrow> setProperty_voice engine (v_id v))"
  by (induction vs) auto





subsection \<open>A missing transcoder\<close>

text \<open>
  C7 (as amended).  In the HTTP API, a synthesis with the local engine while pydub is
  not installed fails with status 500 before the engine is created (with the pydub
  message when pyttsx3 is installed, with the pyttsx3 message otherwise), and the world
  is as before: nothing was synthesised and no file was written.
\<close>

theorem no_transcoder_fails_before_synthesis:
  assumes "AudioSegment e = None"
  shows "synthesize_pyttsx3_mp3 e txt voice rate volume w =
           (Inl (HTTPException 500
              (if pyttsx3 e = None then ''pyttsx3 not installed. Run: pip install pyttsx3''
               else ''pydub not installed. Run: pip install pydub and install ffmpeg'')), w)"
  using assms by (simp add: synthesize_pyttsx3_mp3_def split: option.splits)

theorem no_transcoder_witness:
  "AudioSegment env_nopydub = None
   \<and> synthesize_pyttsx3_mp3 env_nopydub ''hi'' None None None world0 =
       (Inl (HTTPException 500 ''pydub not installed. Run: pip install pydub and install ffmpeg''),
        world0)"
proof -
  have h: "AudioSegment env_nopydub = None" by (simp add: env_nopydub_def)
  have p: "pyttsx3 env_nopydub \<noteq> None" by (simp add: env_nopydub_def env0_def gtts0_def convert0_def)
  show ?thesis
    using h p no_transcoder_fails_before_synthesis [OF h, of "''hi''" None None None world0]
    by simp
qed

text \<open>
  The batch script does otherwise: without pydub, \<^verbatim>\<open>wav_to_mp3_if_possible\<close> returns,
  the run succeeds, the text was synthesised and the WAV stays on disk.
\<close>

theorem cli_keeps_wav_counterexample:
  "AudioSegment env_nopydub = None
   \<and> fst (save_with_pyttsx3 env_nopydub [\<lparr>filename = ''a.mp3'', script_text = ''hi''\<rparr>]
            ''out'' None None None True world0) = Inr ()
   \<and> calls (snd (save_with_pyttsx3 env_nopydub [\<lparr>filename = ''a.mp3'', script_text = ''hi''\<rparr>]
            ''out'' None None None True world0)) = [Call_pyttsx3 eng0 ''hi'']
   \<and> files (snd (save_with_pyttsx3 env_nopydub [\<lparr>filename = ''a.mp3'', script_text = ''hi''\<rparr>]
            ''out'' None None None True world0)) ''out/a.wav'' = Some [1]
   \<and> files (snd (save_with_pyttsx3 env_nopydub [\<lparr>filename = ''a.mp3'', script_text = ''hi''\<rparr>]
            ''out'' None None None True world0)) ''out/a.mp3'' = None"
  by (simp add: env_nopydub_def env0_def gtts0_def convert0_def lib0_def speak0_def world0_def save_with_pyttsx3_def
      cli_select_voice_def configure_def wav_to_mp3_if_possible_def path_stem_def
      path_join_def log_call_def Let_def)

subsection \<open>The entries of the archive\<close>









subsection \<open>The engine of the local backend\<close>





lemma configure_keeps:
  "eng_voice (configure engine rate volume) = eng_voice engine"
  "eng_voices (configure engine rate volume) = eng_voices engine"
  "eng_setvoice_raises (configure engine rate volume) = eng_setvoice_raises engine"
  by (simp_all add: configure_def Let_def)

lemma select_voice_swallows:
  assumes "eng_voices engine = Inl err \<or> eng_setvoice_raises engine = Some err"
  shows "pyttsx3_select_voice engine pref = engine"
  using assms
  by (auto simp: pyttsx3_select_voice_def select_voice_loop_find setProperty_voice_def
      split: option.splits sum.splits)

lemma synthesize_pyttsx3_mp3_world:
  assumes "pyttsx3 e = Some lib" and "AudioSegment e = Some convert"
  shows "\<exists>res cs. synthesize_pyttsx3_mp3 e txt voice rate volume w =
           (res, w\<lparr>calls := calls w @
              Call_pyttsx3 (pyttsx3_select_voice (configure (init lib) rate volume) voice) txt # cs\<rparr>)"
  using assms
  by (auto simp: synthesize_pyttsx3_mp3_def log_call_def Let_def split: sum.splits)









text \<open>
  C10.  When the engine raises on the enumeration of its voices, or on the setting of a
  voice, \<^verbatim>\<open>_pyttsx3_select_voice\<close> returns the engine as it was: the voice is the
  default one, the request is handled as one without preference, and the text is
  synthesised.
\<close>

theorem voice_selection_never_fails:
  assumes "pyttsx3 e = Some lib" and "AudioSegment e = Some convert"
      and "eng_voices (init lib) = Inl err \<or> eng_setvoice_raises (init lib) = Some err"
  shows "pyttsx3_select_voice (configure (init lib) rate volume) voice =
           configure (init lib) rate volume
       \<and> eng_voice (configure (init lib) rate volume) = eng_voice (init lib)
       \<and> synthesize_pyttsx3_mp3 e txt voice rate volume w =
           synthesize_pyttsx3_mp3 e txt None rate volume w
       \<and> (\<exists>cs. calls (snd (synthesize_pyttsx3_mp3 e txt voice rate volume w)) =
              calls w @ Call_pyttsx3 (configure (init lib) rate volume) txt # cs)"
proof -
  have s: "pyttsx3_select_voice (configure (init lib) rate volume) pref =
             configure (init lib) rate volume" for pref
    using assms(3) select_voice_swallows [of "configure (init lib) rate volume" err pref]
    by (simp add: configure_keeps)
  have t: "synthesize_pyttsx3_mp3 e txt voice rate volume w =
           synthesize_pyttsx3_mp3 e txt None rate volume w"
    using assms(1,2) by (simp add: synthesize_pyttsx3_mp3_def s)
  from synthesize_pyttsx3_mp3_world [OF assms(1,2), of "txt" voice rate volume w]
  have "\<exists>cs. calls (snd (synthesize_pyttsx3_mp3 e txt voice rate volume w)) =
              calls w @ Call_pyttsx3 (configure (init lib) rate volume) txt # cs"
    by (auto simp: s)
  with s t show ?thesis by (simp add: configure_keeps)
qed

theorem voice_selection_never_fails_witness:
  "pyttsx3 env_novoices = Some lib_novoices \<and> AudioSegment env_novoices = Some convert0
   \<and> (eng_voices (init lib_novoices) = Inl ''driver error''
        \<or> eng_setvoice_raises (init lib_novoices) = Some ''driver error'')
   \<and> synthesize_pyttsx3_mp3 env_novoices ''hi'' (Some ''female'') None None world0 =
       synthesize_pyttsx3_mp3 env_novoices ''hi'' None None None world0
   \<and> synthesize_pyttsx3_mp3 env_novoices ''hi'' None None None world0 =
       (Inr [3, 1],
        \<lparr>files = Map.empty, calls = [Call_pyttsx3 (init lib_novoices) ''hi'', Call_pydub [1]]\<rparr>)
   \<and> eng_voice (init lib_novoices) = ''default''"
proof -
  have h1: "pyttsx3 env_novoices = Some lib_novoices" by (simp add: env_novoices_def)
  have h2: "AudioSegment env_novoices = Some convert0" by (simp add: env_novoices_def env0_def)
  have h3: "eng_voices (init lib_novoices) = Inl ''driver error''
        \<or> eng_setvoice_raises (init lib_novoices) = Some ''driver error''"
    by (simp add: lib_novoices_def)
  have e: "synthesize_pyttsx3_mp3 env_novoices ''hi'' None None None world0 =
       (Inr [3, 1],
        \<lparr>files = Map.empty, calls = [Call_pyttsx3 (init lib_novoices) ''hi'', Call_pydub [1]]\<rparr>)"
    by (simp add: synthesize_pyttsx3_mp3_def env_novoices_def env0_def convert0_def
        lib_novoices_def speak0_def configure_def pyttsx3_select_voice_def log_call_def
        world0_def Let_def)
  have v: "eng_voice (init lib_novoices) = ''default''"
    by (simp add: lib_novoices_def eng0_def)
  from voice_selection_never_fails [OF h1 h2 h3, of None None "Some ''female''" "''hi''" world0]
  have "synthesize_pyttsx3_mp3 env_novoices ''hi'' (Some ''female'') None None world0 =
       synthesize_pyttsx3_mp3 env_novoices ''hi'' None None None world0"
    by blast
  with h1 h2 h3 e v show ?thesis by blast
qed

end
